theory Spec2Isabelle
  imports Complex_Main "HOL-Library.Sublist"
begin

section \<open>The Ansible Runner Service client (ansible\_runner\_svc.py)\<close>

text \<open>
  A shallow embedding of \<^verbatim>\<open>src/pybind/mgr/ansible/ansible_runner_svc.py\<close>.
  Every method takes the state of the outside world and returns its outcome with the
  new state. An outcome is \<open>Inl e\<close> when the Python raises \<open>e\<close> and \<open>Inr v\<close> when it
  returns \<open>v\<close>. What the module imports (\<^verbatim>\<open>requests\<close>, \<^verbatim>\<open>json\<close>, \<^verbatim>\<open>re\<close>) is not part
  of the file: those functions are the fields of an environment record, so that every
  theorem holds for all behaviours of the network and of the libraries.
\<close>

subsection \<open>Values\<close>

text \<open>A Python float as \<^verbatim>\<open>json.loads\<close> may produce it (it accepts NaN and Infinity).\<close>

datatype pyfloat = Finite rat | PosInf | NegInf | NaN

text \<open>
  What \<^verbatim>\<open>json.loads\<close> returns. A dict is the list of its items in insertion order,
  which is the order in which \<^verbatim>\<open>items()\<close> yields them.
\<close>

datatype json =
    JNull
  | JBool bool
  | JInt int
  | JFloat pyfloat
  | JStr string
  | JArr "json list"
  | JObj "(string \<times> json) list"

text \<open>The exceptions that occur in the module, each with the text \<^verbatim>\<open>str(ex)\<close> gives.\<close>

datatype exn =
    RequestException string
  | IOError string
  | AnsibleRunnerServiceError string
  | NotImplementedError string
  | KeyError string
  | TypeError string
  | AttributeError string
  | ValueError string
  | ReError string
  | OtherException string

text \<open>\<^verbatim>\<open>ExecutionStatusCode\<close>: SUCCESS = 0, ERROR = 1, ON\_GOING = 2, NOT\_LAUNCHED = 3.\<close>

datatype ExecutionStatusCode = SUCCESS | ERROR | ON_GOING | NOT_LAUNCHED

fun status_value_of :: "ExecutionStatusCode \<Rightarrow> nat" where
  "status_value_of SUCCESS = 0"
| "status_value_of ERROR = 1"
| "status_value_of ON_GOING = 2"
| "status_value_of NOT_LAUNCHED = 3"

subsection \<open>Requests, responses and the outside world\<close>

datatype http_method = GET | POST | DELETE

text \<open>
  The \<^verbatim>\<open>verify\<close> argument of \<^verbatim>\<open>requests\<close>: "a boolean that sometimes contains a string".
\<close>

datatype verify = VerifyBool bool | VerifyBundle string

record request =
  verb :: http_method
  url :: string
  verify_arg :: verify
  cert :: "string \<times> string"
  headers :: "(string \<times> string) list"
  json_body :: "json option"
  params_arg :: "json option"

record response =
  status_code :: int
  reason :: string
  body_text :: string

text \<open>
  \<^verbatim>\<open>requests.codes.ok\<close>, and the property \<^verbatim>\<open>Response.ok\<close> of the requests library, which
  is also the truth value of a response (\<^verbatim>\<open>Response.__bool__\<close> returns \<^verbatim>\<open>self.ok\<close>):
  \<^verbatim>\<open>raise_for_status\<close> raises exactly for the statuses from 400 to 599.
\<close>

definition codes_ok :: int where
  "codes_ok = 200"

definition ok :: "response \<Rightarrow> bool" where
  "ok r = (\<not> (400 \<le> status_code r \<and> status_code r < 600))"

text \<open>\<^verbatim>\<open>if response:\<close> for a variable that is \<^verbatim>\<open>None\<close> or a response.\<close>

fun truthy_response :: "response option \<Rightarrow> bool" where
  "truthy_response None = False"
| "truthy_response (Some r) = ok r"

datatype log_level = INFO | ERROR_LEVEL | EXCEPTION

text \<open>
  The state the module acts on: the requests sent so far, oldest first, and the lines
  given to the logger (the level and the format string; the arguments are left out).
\<close>

record state =
  sent :: "request list"
  logged :: "(log_level \<times> string) list"

text \<open>
  The imported functions. \<open>requests_request\<close> answers a request, given the requests
  sent before it: a response, or the exception the HTTP stack raises.
  \<open>re_match\<close> tells whether \<^verbatim>\<open>re.match(pattern, value)\<close> returns a match object.
  \<open>py_str\<close> is \<^verbatim>\<open>str\<close> on the values that are not strings.
\<close>

record env =
  requests_request :: "request list \<Rightarrow> request \<Rightarrow> exn + response"
  json_loads :: "string \<Rightarrow> exn + json"
  re_match :: "string \<Rightarrow> json \<Rightarrow> exn + bool"
  py_str :: "json \<Rightarrow> string"

definition log_line :: "log_level \<Rightarrow> string \<Rightarrow> state \<Rightarrow> state" where
  "log_line lvl msg s = s\<lparr>logged := logged s @ [(lvl, msg)]\<rparr>"

definition send :: "env \<Rightarrow> request \<Rightarrow> state \<Rightarrow> (exn + response) \<times> state" where
  "send E rq s = (requests_request E (sent s) rq, s\<lparr>sent := sent s @ [rq]\<rparr>)"

subsection \<open>API endpoints\<close>

definition API_URL :: string where
  "API_URL = ''api''"

definition PLAYBOOK_EXEC_URL :: string where
  "PLAYBOOK_EXEC_URL = ''api/v1/playbooks''"

text \<open>\<^verbatim>\<open>"%s"\<close> applied to a value: a string is itself, any other value goes through \<^verbatim>\<open>str\<close>.\<close>

fun fmt_s :: "env \<Rightarrow> json \<Rightarrow> string" where
  "fmt_s E (JStr s) = s"
| "fmt_s E v = py_str E v"

text \<open>\<^verbatim>\<open>PLAYBOOK_EVENTS % x\<close> with \<^verbatim>\<open>PLAYBOOK_EVENTS = "api/v1/jobs/%s/events"\<close>.\<close>

definition PLAYBOOK_EVENTS :: "env \<Rightarrow> json \<Rightarrow> string" where
  "PLAYBOOK_EVENTS E x = ''api/v1/jobs/'' @ fmt_s E x @ ''/events''"

subsection \<open>The decorator \<^verbatim>\<open>handle_requests_exceptions\<close>\<close>

text \<open>
  \<^verbatim>\<open>except (requests.exceptions.RequestException, IOError) as ex:
      raise AnsibleRunnerServiceError(str(ex))\<close>; every other exception passes.
\<close>

fun translate_exn :: "exn \<Rightarrow> exn" where
  "translate_exn (RequestException m) = AnsibleRunnerServiceError m"
| "translate_exn (IOError m) = AnsibleRunnerServiceError m"
| "translate_exn e = e"

definition handle_requests_exceptions ::
  "(state \<Rightarrow> (exn + 'a) \<times> state) \<Rightarrow> state \<Rightarrow> (exn + 'a) \<times> state" where
  "handle_requests_exceptions func s =
     (case func s of
        (Inl ex, s') \<Rightarrow> (Inl (translate_exn ex), s')
      | (Inr v, s') \<Rightarrow> (Inr v, s'))"

subsection \<open>The class \<^verbatim>\<open>Client\<close>\<close>

record client =
  server_url :: string
  verify_server :: verify
  client_cert :: "string \<times> string"

text \<open>
  \<^verbatim>\<open>Client.__init__\<close>: a non-empty \<^verbatim>\<open>ca_bundle\<close> overwrites \<^verbatim>\<open>verify_server\<close>, and the
  URL gets the prefix \<^verbatim>\<open>https://\<close>.
\<close>

definition Client_init ::
  "string \<Rightarrow> bool \<Rightarrow> string \<Rightarrow> string \<Rightarrow> string \<Rightarrow> client" where
  "Client_init the_server_url the_verify_server ca_bundle the_client_cert client_key =
     \<lparr> server_url = ''https://'' @ the_server_url,
       verify_server = (if ca_bundle \<noteq> [] then VerifyBundle ca_bundle
                        else VerifyBool the_verify_server),
       client_cert = (the_client_cert, client_key) \<rparr>"

definition get_request :: "client \<Rightarrow> string \<Rightarrow> request" where
  "get_request c endpoint =
     \<lparr> verb = GET, url = server_url c @ ''/'' @ endpoint,
       verify_arg = verify_server c, cert = client_cert c, headers = [],
       json_body = None, params_arg = None \<rparr>"

definition post_request :: "client \<Rightarrow> string \<Rightarrow> json \<Rightarrow> json \<Rightarrow> request" where
  "post_request c endpoint payload params_dict =
     \<lparr> verb = POST, url = server_url c @ ''/'' @ endpoint,
       verify_arg = verify_server c, cert = client_cert c,
       headers = [(''Content-type'', ''application/json'')],
       json_body = Some payload, params_arg = Some params_dict \<rparr>"

definition delete_request :: "client \<Rightarrow> string \<Rightarrow> request" where
  "delete_request c endpoint =
     \<lparr> verb = DELETE, url = server_url c @ ''/'' @ endpoint,
       verify_arg = verify_server c, cert = client_cert c, headers = [],
       json_body = None, params_arg = None \<rparr>"

text \<open>
  The body shared by \<^verbatim>\<open>http_get\<close>, \<^verbatim>\<open>http_post\<close> and \<^verbatim>\<open>http_delete\<close>: send the
  request, log at error level when the status is not \<^verbatim>\<open>requests.codes.ok\<close> and at info
  level otherwise, return the response.
\<close>

definition exchange ::
  "env \<Rightarrow> request \<Rightarrow> string \<Rightarrow> string \<Rightarrow> state \<Rightarrow> (exn + response) \<times> state" where
  "exchange E rq err_fmt info_fmt s =
     (case send E rq s of
        (Inl ex, s1) \<Rightarrow> (Inl ex, s1)
      | (Inr resp, s1) \<Rightarrow>
          (Inr resp,
           if status_code resp \<noteq> codes_ok then log_line ERROR_LEVEL err_fmt s1
           else log_line INFO info_fmt s1))"

definition http_get ::
  "env \<Rightarrow> client \<Rightarrow> string \<Rightarrow> state \<Rightarrow> (exn + response) \<times> state" where
  "http_get E c endpoint =
     handle_requests_exceptions
       (exchange E (get_request c endpoint)
          ''http GET %s <--> (%s - %s)\<newline>%s'' ''http GET %s <--> (%s - %s)'')"

definition http_post ::
  "env \<Rightarrow> client \<Rightarrow> string \<Rightarrow> json \<Rightarrow> json \<Rightarrow> state \<Rightarrow> (exn + response) \<times> state" where
  "http_post E c endpoint payload params_dict =
     handle_requests_exceptions
       (exchange E (post_request c endpoint payload params_dict)
          ''http POST %s [%s] <--> (%s - %s:%s)\<newline>'' ''http POST %s <--> (%s - %s)'')"

definition http_delete ::
  "env \<Rightarrow> client \<Rightarrow> string \<Rightarrow> state \<Rightarrow> (exn + response) \<times> state" where
  "http_delete E c endpoint =
     handle_requests_exceptions
       (exchange E (delete_request c endpoint)
          ''http DELETE %s <--> (%s - %s)\<newline>%s'' ''http DELETE %s <--> (%s - %s)'')"

text \<open>\<^verbatim>\<open>http_put\<close> is not decorated and raises \<^verbatim>\<open>NotImplementedError("TODO")\<close>.\<close>

definition http_put ::
  "env \<Rightarrow> client \<Rightarrow> string \<Rightarrow> json \<Rightarrow> state \<Rightarrow> (exn + response) \<times> state" where
  "http_put E c endpoint payload s = (Inl (NotImplementedError ''TODO''), s)"

text \<open>
  \<^verbatim>\<open>is_operative\<close>, decorated: the response of \<^verbatim>\<open>http_get(API_URL)\<close>, when it is true,
  gives \<^verbatim>\<open>status_code == requests.codes.ok\<close>, and \<^verbatim>\<open>False\<close> otherwise.
\<close>

definition is_operative :: "env \<Rightarrow> client \<Rightarrow> state \<Rightarrow> (exn + bool) \<times> state" where
  "is_operative E c =
     handle_requests_exceptions (\<lambda>s.
       case http_get E c API_URL s of
         (Inl ex, s1) \<Rightarrow> (Inl ex, s1)
       | (Inr resp, s1) \<Rightarrow>
           (if truthy_response (Some resp) then (Inr (status_code resp = codes_ok), s1)
            else (Inr False, s1)))"

subsection \<open>Operations on the values of \<^verbatim>\<open>json.loads\<close>\<close>

text \<open>Sequencing: the first exception ends the evaluation.\<close>

fun bindE :: "exn + 'a \<Rightarrow> ('a \<Rightarrow> exn + 'b) \<Rightarrow> exn + 'b" where
  "bindE (Inl e) f = Inl e"
| "bindE (Inr v) f = f v"

text \<open>
  \<^verbatim>\<open>x[key]\<close> for a string key: a dict gives the value or raises \<^verbatim>\<open>KeyError\<close>; a list, a
  string, a number, a boolean and \<^verbatim>\<open>None\<close> raise \<^verbatim>\<open>TypeError\<close>.
\<close>

fun subscript :: "json \<Rightarrow> string \<Rightarrow> exn + json" where
  "subscript (JObj kvs) key =
     (case map_of kvs key of Some v \<Rightarrow> Inr v | None \<Rightarrow> Inl (KeyError key))"
| "subscript (JArr xs) key = Inl (TypeError ''list indices must be integers or slices, not str'')"
| "subscript (JStr s) key = Inl (TypeError ''string indices must be integers'')"
| "subscript v key = Inl (TypeError ''object is not subscriptable'')"

fun contains_sub :: "string \<Rightarrow> string \<Rightarrow> bool" where
  "contains_sub key [] = (key = [])"
| "contains_sub key (c # cs) = (prefix key (c # cs) \<or> contains_sub key cs)"

text \<open>
  \<^verbatim>\<open>key in x\<close> for a string key: the keys of a dict, the elements of a list, the
  substrings of a string; \<^verbatim>\<open>TypeError\<close> for a number, a boolean and \<^verbatim>\<open>None\<close>.
\<close>

fun py_in :: "string \<Rightarrow> json \<Rightarrow> exn + bool" where
  "py_in key (JObj kvs) = Inr (key \<in> set (map fst kvs))"
| "py_in key (JArr xs) = Inr (JStr key \<in> set xs)"
| "py_in key (JStr s) = Inr (contains_sub key s)"
| "py_in key v = Inl (TypeError ''argument is not iterable'')"

text \<open>\<^verbatim>\<open>x.items()\<close>: only a dict has the method.\<close>

fun items :: "json \<Rightarrow> exn + (string \<times> json) list" where
  "items (JObj kvs) = Inr kvs"
| "items v = Inl (AttributeError ''object has no attribute items'')"

text \<open>The truth value of a Python value.\<close>

fun truthy :: "json \<Rightarrow> bool" where
  "truthy JNull = False"
| "truthy (JBool b) = b"
| "truthy (JInt i) = (i \<noteq> 0)"
| "truthy (JFloat f) = (f \<noteq> Finite 0)"
| "truthy (JStr s) = (s \<noteq> [])"
| "truthy (JArr xs) = (xs \<noteq> [])"
| "truthy (JObj kvs) = (kvs \<noteq> [])"

text \<open>\<^verbatim>\<open>sep.join(xs)\<close>.\<close>

fun join :: "string \<Rightarrow> string list \<Rightarrow> string" where
  "join sep [] = []"
| "join sep [x] = x"
| "join sep (x # y # ys) = x @ sep @ join sep (y # ys)"

text \<open>
  A dict comprehension \<^verbatim>\<open>{event:data for event, data in items if cond(data)}\<close>: the
  items are visited in order, and the first exception of the condition ends the loop.
\<close>

fun comprehension :: "(json \<Rightarrow> exn + bool) \<Rightarrow> (string \<times> json) list \<Rightarrow> exn + (string \<times> json) list" where
  "comprehension cond [] = Inr []"
| "comprehension cond ((event, data) # rest) =
     (case cond data of
        Inl e \<Rightarrow> Inl e
      | Inr b \<Rightarrow>
          (case comprehension cond rest of
             Inl e \<Rightarrow> Inl e
           | Inr kept \<Rightarrow> Inr (if b then (event, data) # kept else kept)))"

subsection \<open>The class \<^verbatim>\<open>PlayBookExecution\<close>\<close>

record PlayBookExecution =
  rest_client :: client
  play_uuid :: json
  result_task_pattern :: string
  playbook :: string
  params :: json
  querystr_dict :: json

definition PlayBookExecution_init ::
  "client \<Rightarrow> string \<Rightarrow> string \<Rightarrow> json \<Rightarrow> json \<Rightarrow> PlayBookExecution" where
  "PlayBookExecution_init the_rest_client the_playbook result_pattern the_params the_querystr_dict =
     \<lparr> rest_client = the_rest_client,
       play_uuid = JStr ''-'',
       result_task_pattern = result_pattern,
       playbook = the_playbook,
       params = the_params,
       querystr_dict = the_querystr_dict \<rparr>"

text \<open>
  \<^verbatim>\<open>launch\<close>. A transport error of \<^verbatim>\<open>http_post\<close> is logged and raised again. With a
  response, \<^verbatim>\<open>response.ok\<close> decides: the identifier is read from the body, or the
  reason phrase is raised.
\<close>

definition launch ::
  "env \<Rightarrow> PlayBookExecution \<Rightarrow> state \<Rightarrow> (exn + unit) \<times> PlayBookExecution \<times> state" where
  "launch E self s =
     (let endpoint = PLAYBOOK_EXEC_URL @ ''/'' @ playbook self in
      case http_post E (rest_client self) endpoint (params self) (querystr_dict self) s of
        (Inl (AnsibleRunnerServiceError m), s1) \<Rightarrow>
          (Inl (AnsibleRunnerServiceError m), self,
           log_line EXCEPTION ''Error launching playbook <%s>'' s1)
      | (Inl ex, s1) \<Rightarrow> (Inl ex, self, s1)
      | (Inr resp, s1) \<Rightarrow>
          (if ok resp then
             (case bindE (json_loads E (body_text resp)) (\<lambda>j.
                   bindE (subscript j ''data'') (\<lambda>d. subscript d ''play_uuid'')) of
                Inl ex \<Rightarrow> (Inl ex, self, s1)
              | Inr uuid \<Rightarrow>
                  (Inr (), self\<lparr>play_uuid := uuid\<rparr>,
                   log_line INFO ''Playbook execution launched succesfuly'' s1))
           else (Inl (AnsibleRunnerServiceError (reason resp)), self, s1)))"

text \<open>
  The part of \<^verbatim>\<open>get_status\<close> after the request, for \<^verbatim>\<open>response\<close> being \<^verbatim>\<open>None\<close> or the
  response received.
\<close>

definition status_of_response :: "env \<Rightarrow> response option \<Rightarrow> exn + ExecutionStatusCode" where
  "status_of_response E resp =
     (case resp of
        None \<Rightarrow> Inr ERROR
      | Some r \<Rightarrow>
          (if truthy_response (Some r) then
             bindE (bindE (json_loads E (body_text r)) (\<lambda>j. subscript j ''msg''))
               (\<lambda>the_status.
                  if the_status = JStr ''successful'' then Inr SUCCESS
                  else if the_status = JStr ''failed'' then Inr ERROR
                  else Inr ON_GOING)
           else Inr ERROR))"

text \<open>The last two lines of \<^verbatim>\<open>get_status\<close> and of \<^verbatim>\<open>get_result\<close>: log, then return.\<close>

definition log_and_return :: "string \<Rightarrow> (exn + 'a) \<Rightarrow> state \<Rightarrow> (exn + 'a) \<times> state" where
  "log_and_return msg r s =
     (case r of Inl ex \<Rightarrow> (Inl ex, s) | Inr v \<Rightarrow> (Inr v, log_line INFO msg s))"

definition get_status ::
  "env \<Rightarrow> PlayBookExecution \<Rightarrow> state \<Rightarrow> (exn + ExecutionStatusCode) \<times> state" where
  "get_status E self s =
     (if play_uuid self = JStr ''-'' then
        log_and_return ''Requested playbook execution status is: %s'' (Inr NOT_LAUNCHED) s
      else if play_uuid self = JStr [] then
        log_and_return ''Requested playbook execution status is: %s'' (Inr ERROR) s
      else
        (let endpoint = PLAYBOOK_EXEC_URL @ ''/'' @ fmt_s E (play_uuid self) in
         case http_get E (rest_client self) endpoint s of
           (Inl (AnsibleRunnerServiceError m), s1) \<Rightarrow>
             log_and_return ''Requested playbook execution status is: %s''
               (status_of_response E None)
               (log_line EXCEPTION ''Error getting playbook <%s> status'' s1)
         | (Inl ex, s1) \<Rightarrow> (Inl ex, s1)
         | (Inr resp, s1) \<Rightarrow>
             log_and_return ''Requested playbook execution status is: %s''
               (status_of_response E (Some resp)) s1))"

text \<open>The two conditions of the comprehensions of \<^verbatim>\<open>get_result\<close>.\<close>

definition task_cond :: "env \<Rightarrow> string \<Rightarrow> json \<Rightarrow> exn + bool" where
  "task_cond E pattern data =
     bindE (py_in ''task'' data) (\<lambda>has_task.
       if has_task then bindE (subscript data ''task'') (re_match E pattern)
       else Inr False)"

definition event_cond :: "env \<Rightarrow> string \<Rightarrow> json \<Rightarrow> exn + bool" where
  "event_cond E type_of_events data =
     bindE (subscript data ''event'') (re_match E type_of_events)"

text \<open>
  \<^verbatim>\<open># Filter by task\<close>: with a pattern that is not empty, the comprehension over
  \<^verbatim>\<open>events.items()\<close>; otherwise the events as they are.
\<close>

definition filter_by_task :: "env \<Rightarrow> PlayBookExecution \<Rightarrow> json \<Rightarrow> exn + json" where
  "filter_by_task E self events =
     (if result_task_pattern self \<noteq> [] then
        bindE (items events) (\<lambda>its.
        bindE (comprehension (task_cond E (result_task_pattern self)) its) (\<lambda>kept.
        Inr (JObj kept)))
      else Inr events)"

text \<open>
  \<^verbatim>\<open># Filter by event\<close>: with a list that is not empty, the comprehension over
  \<^verbatim>\<open>result_events.items()\<close> with the names joined by \<open>|\<close>.
\<close>

definition filter_by_event :: "env \<Rightarrow> string list \<Rightarrow> json \<Rightarrow> exn + json" where
  "filter_by_event E event_filter result =
     (if event_filter \<noteq> [] then
        bindE (items result) (\<lambda>its.
        bindE (comprehension (event_cond E (join ''|'' event_filter)) its) (\<lambda>kept.
        Inr (JObj kept)))
      else Inr result)"

text \<open>\<^verbatim>\<open>events = json.loads(response.text)["data"]["events"]\<close>.\<close>

definition events_of :: "env \<Rightarrow> response \<Rightarrow> exn + json" where
  "events_of E resp =
     bindE (json_loads E (body_text resp)) (\<lambda>j.
     bindE (subscript j ''data'') (\<lambda>d. subscript d ''events''))"

text \<open>
  The part of \<^verbatim>\<open>get_result\<close> for a response that is true: read the events, then the
  two filters.
\<close>

definition result_events ::
  "env \<Rightarrow> PlayBookExecution \<Rightarrow> string list \<Rightarrow> response \<Rightarrow> exn + json" where
  "result_events E self event_filter resp =
     bindE (events_of E resp) (\<lambda>events.
     bindE (filter_by_task E self events) (filter_by_event E event_filter))"

definition get_result ::
  "env \<Rightarrow> PlayBookExecution \<Rightarrow> string list \<Rightarrow> state \<Rightarrow> (exn + json) \<times> state" where
  "get_result E self event_filter s =
     (if \<not> truthy (play_uuid self) then (Inr (JObj []), s)
      else
        (case http_get E (rest_client self) (PLAYBOOK_EVENTS E (play_uuid self)) s of
           (Inl (AnsibleRunnerServiceError m), s1) \<Rightarrow>
             log_and_return ''Requested playbook result is: %s'' (Inr (JObj []))
               (log_line EXCEPTION ''Error getting playbook <%s> result'' s1)
         | (Inl ex, s1) \<Rightarrow> (Inl ex, s1)
         | (Inr resp, s1) \<Rightarrow>
             log_and_return ''Requested playbook result is: %s''
               (if truthy_response (Some resp) then result_events E self event_filter resp
                else Inr (JObj []))
               s1))"

section \<open>What the specification says, as predicates\<close>

text \<open>
  The I/O-level exceptions of the HTTP stack, which the decorator translates, and the
  message \<^verbatim>\<open>str(ex)\<close> of an exception.
\<close>

fun io_level :: "exn \<Rightarrow> bool" where
  "io_level (RequestException m) = True"
| "io_level (IOError m) = True"
| "io_level e = False"

fun str_exn :: "exn \<Rightarrow> string" where
  "str_exn (RequestException m) = m"
| "str_exn (IOError m) = m"
| "str_exn (AnsibleRunnerServiceError m) = m"
| "str_exn (NotImplementedError m) = m"
| "str_exn (KeyError m) = m"
| "str_exn (TypeError m) = m"
| "str_exn (AttributeError m) = m"
| "str_exn (ValueError m) = m"
| "str_exn (ReError m) = m"
| "str_exn (OtherException m) = m"

text \<open>The request that \<^verbatim>\<open>get_status\<close> sends for an identifier.\<close>

definition status_request :: "env \<Rightarrow> PlayBookExecution \<Rightarrow> request" where
  "status_request E self =
     get_request (rest_client self) (PLAYBOOK_EXEC_URL @ ''/'' @ fmt_s E (play_uuid self))"

text \<open>The request that \<^verbatim>\<open>launch\<close> sends, and the one that \<^verbatim>\<open>get_result\<close> sends.\<close>

definition launch_request :: "PlayBookExecution \<Rightarrow> request" where
  "launch_request self =
     post_request (rest_client self) (PLAYBOOK_EXEC_URL @ ''/'' @ playbook self)
       (params self) (querystr_dict self)"

definition events_request :: "env \<Rightarrow> PlayBookExecution \<Rightarrow> request" where
  "events_request E self = get_request (rest_client self) (PLAYBOOK_EVENTS E (play_uuid self))"

text \<open>An outcome that is a value, or the transport error and no other exception.\<close>

fun only_transport_error :: "exn + 'a \<Rightarrow> bool" where
  "only_transport_error (Inl (AnsibleRunnerServiceError m)) = True"
| "only_transport_error (Inl e) = False"
| "only_transport_error (Inr v) = True"

text \<open>An HTTP stack that raises I/O-level exceptions only.\<close>

definition io_only :: "env \<Rightarrow> bool" where
  "io_only E = (\<forall>hist rq ex. requests_request E hist rq = Inl ex \<longrightarrow> io_level ex)"

text \<open>The status that \<^verbatim>\<open>get_status\<close> gives to the \<^verbatim>\<open>msg\<close> field of a parsed body.\<close>

definition status_of_msg :: "json \<Rightarrow> ExecutionStatusCode" where
  "status_of_msg m =
     (if m = JStr ''successful'' then SUCCESS
      else if m = JStr ''failed'' then ERROR
      else ON_GOING)"

text \<open>
  The metacharacters of Python's \<^verbatim>\<open>re\<close> syntax; \<open>CHR 0x5C\<close> is the backslash. A name
  without any of them is a literal pattern.
\<close>

definition re_special :: "char \<Rightarrow> bool" where
  "re_special c = (c \<in> set ''.^$*+?{}[]|()'' \<or> c = CHR 0x5C)"

definition literal :: "string \<Rightarrow> bool" where
  "literal p = list_all (\<lambda>c. \<not> re_special c) p"

text \<open>
  The alternatives of a pattern that consists of ordinary characters and \<open>|\<close>, and
  what \<^verbatim>\<open>re.match\<close> does with such a pattern: it returns a match exactly when one of
  the alternatives is a prefix of the string.
\<close>

fun split_bar :: "string \<Rightarrow> string list" where
  "split_bar [] = [[]]"
| "split_bar (c # cs) =
     (if c = CHR ''|'' then [] # split_bar cs
      else (case split_bar cs of [] \<Rightarrow> [[c]] | a # as \<Rightarrow> (c # a) # as))"

definition literal_alternation :: "string \<Rightarrow> bool" where
  "literal_alternation p = list_all (\<lambda>c. c = CHR ''|'' \<or> \<not> re_special c) p"

definition literal_match :: "string \<Rightarrow> string \<Rightarrow> bool" where
  "literal_match p s = list_ex (\<lambda>a. prefix a s) (split_bar p)"

text \<open>An environment whose \<open>re_match\<close> is \<^verbatim>\<open>re.match\<close> on those patterns.\<close>

definition re_agrees :: "env \<Rightarrow> bool" where
  "re_agrees E =
     (\<forall>p s. literal_alternation p \<longrightarrow> re_match E p (JStr s) = Inr (literal_match p s))"



text \<open>
  An event whose \<^verbatim>\<open>event\<close> field matches the pattern, and one whose \<^verbatim>\<open>event\<close> field is
  a string that starts with one of the names.
\<close>

fun event_matches :: "env \<Rightarrow> string \<Rightarrow> json \<Rightarrow> bool" where
  "event_matches E pattern (JObj kvs) =
     (case map_of kvs ''event'' of
        Some e \<Rightarrow> re_match E pattern e = Inr True
      | None \<Rightarrow> False)"
| "event_matches E pattern v = False"

fun event_starts_with :: "string list \<Rightarrow> json \<Rightarrow> bool" where
  "event_starts_with names (JObj kvs) =
     (case map_of kvs ''event'' of
        Some (JStr e) \<Rightarrow> list_ex (\<lambda>n. prefix n e) names
      | _ \<Rightarrow> False)"
| "event_starts_with names v = False"


text \<open>An event that is a dict with an \<^verbatim>\<open>event\<close> field that is a string.\<close>

fun has_event_string :: "json \<Rightarrow> bool" where
  "has_event_string (JObj kvs) =
     (case map_of kvs ''event'' of Some (JStr e) \<Rightarrow> True | _ \<Rightarrow> False)"
| "has_event_string v = False"

section \<open>Concrete clients, handles, responses and environments\<close>

definition c0 :: client where
  "c0 = Client_init ''runner:5001'' True [] ''client.crt'' ''client.key''"

definition s0 :: state where
  "s0 = \<lparr> sent = [], logged = [] \<rparr>"

text \<open>A handle as the constructor leaves it, and one that holds an identifier.\<close>

definition h_new :: PlayBookExecution where
  "h_new = PlayBookExecution_init c0 ''site.yml'' [] JNull JNull"

definition h_run :: PlayBookExecution where
  "h_run = h_new\<lparr>play_uuid := JStr ''uuid-1''\<rparr>"


text \<open>Bodies, written out as JSON text; \<open>CHR 0x22\<close> is the double quote.\<close>

definition quoted :: "string \<Rightarrow> string" where
  "quoted x = CHR 0x22 # x @ [CHR 0x22]"

definition json_member :: "string \<Rightarrow> string \<Rightarrow> string" where
  "json_member k v = quoted k @ '': '' @ v"

definition json_object :: "string list \<Rightarrow> string" where
  "json_object ms = ''{'' @ join '', '' ms @ ''}''"

definition body_msg :: "string \<Rightarrow> string" where
  "body_msg m = json_object [json_member ''msg'' (quoted m)]"

definition body_uuid :: string where
  "body_uuid = json_object [json_member ''data'' (json_object [json_member ''play_uuid'' (quoted ''uuid-2'')])]"

definition body_events :: string where
  "body_events =
     json_object [json_member ''data'' (json_object [json_member ''events'' (json_object
       [json_member ''1-a'' (json_object [json_member ''event'' (quoted ''playbook_on_start'')]),
        json_member ''2-b'' (json_object [json_member ''event'' (quoted ''runner_on_ok''),
                                json_member ''task'' (quoted ''Gathering Facts'')]),
        json_member ''3-c'' (json_object [json_member ''event'' (quoted ''runner_on_failed''),
                                json_member ''task'' (quoted ''Install'')])])])]"

definition events0 :: "(string \<times> json) list" where
  "events0 =
     [(''1-a'', JObj [(''event'', JStr ''playbook_on_start'')]),
      (''2-b'', JObj [(''event'', JStr ''runner_on_ok''), (''task'', JStr ''Gathering Facts'')]),
      (''3-c'', JObj [(''event'', JStr ''runner_on_failed''), (''task'', JStr ''Install'')])]"

text \<open>Events of which the second has a \<^verbatim>\<open>task\<close> field and no \<^verbatim>\<open>event\<close> field.\<close>

definition body_no_event :: string where
  "body_no_event =
     json_object [json_member ''data'' (json_object [json_member ''events'' (json_object
       [json_member ''1-a'' (json_object [json_member ''event'' (quoted ''runner_on_ok'')]),
        json_member ''2-b'' (json_object [json_member ''task'' (quoted ''Install'')])])])]"

definition events_no_event :: "(string \<times> json) list" where
  "events_no_event =
     [(''1-a'', JObj [(''event'', JStr ''runner_on_ok'')]),
      (''2-b'', JObj [(''task'', JStr ''Install'')])]"

text \<open>The values of \<^verbatim>\<open>json.loads\<close> on those bodies; any other text is not decoded.\<close>

definition loads0 :: "string \<Rightarrow> exn + json" where
  "loads0 t =
     (if t = body_msg ''successful'' then Inr (JObj [(''msg'', JStr ''successful'')])
      else if t = body_msg ''not found'' then Inr (JObj [(''msg'', JStr ''not found'')])
      else if t = body_uuid then
        Inr (JObj [(''data'', JObj [(''play_uuid'', JStr ''uuid-2'')])])
      else if t = body_events then Inr (JObj [(''data'', JObj [(''events'', JObj events0)])])
      else if t = body_no_event then
        Inr (JObj [(''data'', JObj [(''events'', JObj events_no_event)])])
      else Inl (ValueError ''No JSON object could be decoded''))"

text \<open>
  \<^verbatim>\<open>re.match\<close> on the patterns of ordinary characters and \<open>|\<close>; these environments
  are used with such patterns only.
\<close>

definition re0 :: "string \<Rightarrow> json \<Rightarrow> exn + bool" where
  "re0 p v =
     (case v of
        JStr s \<Rightarrow>
          (if literal_alternation p then Inr (literal_match p s)
           else Inl (ReError ''pattern outside the patterns of this environment''))
      | _ \<Rightarrow> Inl (TypeError ''expected string or bytes-like object''))"

definition str0 :: "json \<Rightarrow> string" where
  "str0 v = (case v of JNull \<Rightarrow> ''None'' | JBool True \<Rightarrow> ''True'' | JBool False \<Rightarrow> ''False''
             | _ \<Rightarrow> ''?'')"

text \<open>An environment in which every request has the same outcome.\<close>

definition env_of :: "exn + response \<Rightarrow> env" where
  "env_of outcome =
     \<lparr> requests_request = (\<lambda>hist rq. outcome), json_loads = loads0,
       re_match = re0, py_str = str0 \<rparr>"

definition resp_200 :: "string \<Rightarrow> response" where
  "resp_200 b = \<lparr> status_code = 200, reason = ''OK'', body_text = b \<rparr>"

definition resp_300 :: "string \<Rightarrow> response" where
  "resp_300 b = \<lparr> status_code = 300, reason = ''MULTIPLE CHOICES'', body_text = b \<rparr>"

definition resp_404 :: response where
  "resp_404 = \<lparr> status_code = 404, reason = ''NOT FOUND'', body_text = body_msg ''not found'' \<rparr>"

definition resp_500 :: "string \<Rightarrow> response" where
  "resp_500 b = \<lparr> status_code = 500, reason = ''INTERNAL SERVER ERROR'', body_text = b \<rparr>"

definition env_down :: env where
  "env_down = env_of (Inl (IOError ''Connection refused''))"

definition env_404 :: env where
  "env_404 = env_of (Inr resp_404)"

section \<open>The transport client\<close>

lemma translate_io: "io_level ex \<Longrightarrow> translate_exn ex = AnsibleRunnerServiceError (str_exn ex)"
  by (cases ex) simp_all

lemma translate_idem: "translate_exn (translate_exn ex) = translate_exn ex"
  by (cases ex) simp_all

lemma wrapped_response:
  "requests_request E (sent s) rq = Inr r \<Longrightarrow>
   handle_requests_exceptions (exchange E rq a b) s =
     (Inr r, log_line (if status_code r \<noteq> codes_ok then ERROR_LEVEL else INFO)
               (if status_code r \<noteq> codes_ok then a else b) (s\<lparr>sent := sent s @ [rq]\<rparr>))"
  by (simp add: handle_requests_exceptions_def exchange_def send_def)

lemma wrapped_raise:
  "requests_request E (sent s) rq = Inl ex \<Longrightarrow>
   handle_requests_exceptions (exchange E rq a b) s
     = (Inl (translate_exn ex), s\<lparr>sent := sent s @ [rq]\<rparr>)"
  by (simp add: handle_requests_exceptions_def exchange_def send_def)

lemma http_get_response:
  "requests_request E (sent s) (get_request c ep) = Inr r \<Longrightarrow>
   fst (http_get E c ep s) = Inr r \<and>
   sent (snd (http_get E c ep s)) = sent s @ [get_request c ep]"
  by (simp add: http_get_def wrapped_response log_line_def)

lemma http_get_raise:
  "requests_request E (sent s) (get_request c ep) = Inl ex \<Longrightarrow>
   http_get E c ep s = (Inl (translate_exn ex), s\<lparr>sent := sent s @ [get_request c ep]\<rparr>)"
  by (simp add: http_get_def wrapped_raise)

text \<open>
  Claim C8. In \<^verbatim>\<open>http_get\<close>, \<^verbatim>\<open>http_post\<close> and \<^verbatim>\<open>http_delete\<close>, an I/O-level exception
  of the HTTP stack (a \<^verbatim>\<open>RequestException\<close> or an \<^verbatim>\<open>IOError\<close>) is raised again as the
  transport error with the message of the original exception, and a response is
  returned as it is, whatever its status: an error status raises nothing.
\<close>

theorem C8_http_errors_wrapped:
  "(requests_request E (sent s) (get_request c ep) = Inl ex \<longrightarrow> io_level ex \<longrightarrow>
      fst (http_get E c ep s) = Inl (AnsibleRunnerServiceError (str_exn ex)))
   \<and> (requests_request E (sent s) (get_request c ep) = Inr r \<longrightarrow>
      fst (http_get E c ep s) = Inr r)
   \<and> (requests_request E (sent s) (post_request c ep pl qs) = Inl ex \<longrightarrow> io_level ex \<longrightarrow>
      fst (http_post E c ep pl qs s) = Inl (AnsibleRunnerServiceError (str_exn ex)))
   \<and> (requests_request E (sent s) (post_request c ep pl qs) = Inr r \<longrightarrow>
      fst (http_post E c ep pl qs s) = Inr r)
   \<and> (requests_request E (sent s) (delete_request c ep) = Inl ex \<longrightarrow> io_level ex \<longrightarrow>
      fst (http_delete E c ep s) = Inl (AnsibleRunnerServiceError (str_exn ex)))
   \<and> (requests_request E (sent s) (delete_request c ep) = Inr r \<longrightarrow>
      fst (http_delete E c ep s) = Inr r)"
  unfolding http_get_def http_post_def http_delete_def
  by (simp add: wrapped_response wrapped_raise translate_io)

theorem C8_witness:
  "fst (http_get env_down c0 ''api'' s0) = Inl (AnsibleRunnerServiceError ''Connection refused'')
   \<and> fst (http_post env_down c0 ''api'' JNull JNull s0)
       = Inl (AnsibleRunnerServiceError ''Connection refused'')
   \<and> fst (http_delete env_down c0 ''api'' s0)
       = Inl (AnsibleRunnerServiceError ''Connection refused'')
   \<and> fst (http_get env_404 c0 ''api'' s0) = Inr resp_404
   \<and> fst (http_post env_404 c0 ''api'' JNull JNull s0) = Inr resp_404
   \<and> fst (http_delete env_404 c0 ''api'' s0) = Inr resp_404"
  using C8_http_errors_wrapped [of env_down s0 c0 "''api''" "IOError ''Connection refused''"
      resp_404 JNull JNull]
    C8_http_errors_wrapped [of env_404 s0 c0 "''api''" "IOError []" resp_404 JNull JNull]
  by (simp add: env_down_def env_404_def env_of_def)

text \<open>
  Claim C7. \<^verbatim>\<open>is_operative\<close> returns whether the status of the response to the GET of
  the service root is \<^verbatim>\<open>requests.codes.ok\<close>: true for that status, false and no
  exception for every other status. An I/O-level exception of the HTTP stack is raised
  as the transport error, and \<^verbatim>\<open>is_operative\<close> raises only when the HTTP stack raised,
  that is, when there is no response.
\<close>

theorem C7_is_operative:
  "(requests_request E (sent s) (get_request c API_URL) = Inr r \<longrightarrow>
      fst (is_operative E c s) = Inr (status_code r = codes_ok))
   \<and> (requests_request E (sent s) (get_request c API_URL) = Inl ex \<longrightarrow> io_level ex \<longrightarrow>
      fst (is_operative E c s) = Inl (AnsibleRunnerServiceError (str_exn ex)))
   \<and> (fst (is_operative E c s) = Inl e \<longrightarrow>
      (\<exists>ex. requests_request E (sent s) (get_request c API_URL) = Inl ex \<and> e = translate_exn ex))"
proof (cases "requests_request E (sent s) (get_request c API_URL)")
  case (Inl ex)
  then show ?thesis
    by (simp add: is_operative_def handle_requests_exceptions_def http_get_raise translate_io
        translate_idem)
next
  case (Inr r)
  then have "fst (is_operative E c s) = Inr (status_code r = codes_ok)"
    using http_get_response [OF Inr]
    by (cases "http_get E c API_URL s")
       (auto simp: is_operative_def handle_requests_exceptions_def ok_def codes_ok_def)
  with Inr show ?thesis by simp
qed

theorem C7_witness:
  "fst (is_operative env_404 c0 s0) = Inr False
   \<and> fst (is_operative (env_of (Inr (resp_200 []))) c0 s0) = Inr True
   \<and> fst (is_operative env_down c0 s0) = Inl (AnsibleRunnerServiceError ''Connection refused'')"
proof -
  have a: "fst (is_operative env_404 c0 s0) = Inr False"
    using C7_is_operative [of env_404 s0 c0 resp_404 "IOError []" "IOError []"]
    by (simp add: env_404_def env_of_def resp_404_def codes_ok_def)
  have b: "fst (is_operative (env_of (Inr (resp_200 []))) c0 s0) = Inr True"
    using C7_is_operative [of "env_of (Inr (resp_200 []))" s0 c0 "resp_200 []" "IOError []"
        "IOError []"]
    by (simp add: env_of_def resp_200_def codes_ok_def)
  have c: "fst (is_operative env_down c0 s0)
             = Inl (AnsibleRunnerServiceError ''Connection refused'')"
    using C7_is_operative [of env_down s0 c0 resp_404 "IOError ''Connection refused''"
        "AnsibleRunnerServiceError ''Connection refused''"]
    by (simp add: env_down_def env_of_def)
  from a b c show ?thesis by simp
qed

section \<open>The status of an execution\<close>

lemma sent_log_line [simp]: "sent (log_line l m s) = sent s"
  by (simp add: log_line_def)

lemma fst_log_and_return [simp]: "fst (log_and_return m r s) = r"
  by (cases r) (simp_all add: log_and_return_def)

lemma sent_log_and_return [simp]: "sent (snd (log_and_return m r s)) = sent s"
  by (cases r) (simp_all add: log_and_return_def)

lemma status_of_response_launched: "status_of_response E resp \<noteq> Inr NOT_LAUNCHED"
proof (cases resp)
  case None
  then show ?thesis by (simp add: status_of_response_def)
next
  case (Some r)
  show ?thesis
  proof (cases "bindE (json_loads E (body_text r)) (\<lambda>j. subscript j ''msg'')")
    case (Inl e)
    with Some show ?thesis by (simp add: status_of_response_def)
  next
    case (Inr v)
    with Some show ?thesis by (simp add: status_of_response_def)
  qed
qed

lemma get_status_unset:
  "play_uuid self = JStr ''-'' \<Longrightarrow>
   fst (get_status E self s) = Inr NOT_LAUNCHED \<and> sent (snd (get_status E self s)) = sent s"
  by (simp add: get_status_def)

lemma get_status_empty:
  "play_uuid self = JStr [] \<Longrightarrow>
   fst (get_status E self s) = Inr ERROR \<and> sent (snd (get_status E self s)) = sent s"
  by (simp add: get_status_def)

lemma http_get_response_eq:
  "requests_request E (sent s) (get_request c ep) = Inr r \<Longrightarrow>
   \<exists>s1. http_get E c ep s = (Inr r, s1) \<and> sent s1 = sent s @ [get_request c ep]"
  by (simp add: http_get_def wrapped_response)

lemma get_status_response:
  assumes "play_uuid self \<noteq> JStr ''-''" and "play_uuid self \<noteq> JStr []"
    and "requests_request E (sent s) (status_request E self) = Inr r"
  shows "fst (get_status E self s) = status_of_response E (Some r)"
    and "sent (snd (get_status E self s)) = sent s @ [status_request E self]"
proof -
  obtain s1 where "http_get E (rest_client self)
      (PLAYBOOK_EXEC_URL @ ''/'' @ fmt_s E (play_uuid self)) s = (Inr r, s1)"
    and "sent s1 = sent s @ [status_request E self]"
    using http_get_response_eq [of E s "rest_client self" _ r] assms(3)
    unfolding status_request_def by blast
  with assms(1,2) show "fst (get_status E self s) = status_of_response E (Some r)"
    and "sent (snd (get_status E self s)) = sent s @ [status_request E self]"
    by (simp_all add: get_status_def)
qed

lemma get_status_raise:
  assumes "play_uuid self \<noteq> JStr ''-''" and "play_uuid self \<noteq> JStr []"
    and "requests_request E (sent s) (status_request E self) = Inl ex"
  shows "fst (get_status E self s) =
           (case translate_exn ex of AnsibleRunnerServiceError m \<Rightarrow> Inr ERROR | e \<Rightarrow> Inl e)"
    and "sent (snd (get_status E self s)) = sent s @ [status_request E self]"
proof -
  have eq: "http_get E (rest_client self)
      (PLAYBOOK_EXEC_URL @ ''/'' @ fmt_s E (play_uuid self)) s
      = (Inl (translate_exn ex), s\<lparr>sent := sent s @ [status_request E self]\<rparr>)"
    using http_get_raise [of E s "rest_client self" _ ex] assms(3)
    unfolding status_request_def by simp
  with assms(1,2) show "fst (get_status E self s) =
           (case translate_exn ex of AnsibleRunnerServiceError m \<Rightarrow> Inr ERROR | e \<Rightarrow> Inl e)"
    and "sent (snd (get_status E self s)) = sent s @ [status_request E self]"
    by (simp_all add: get_status_def status_of_response_def split: exn.splits)
qed

lemma status_of_response_error: "\<not> ok r \<Longrightarrow> status_of_response E (Some r) = Inr ERROR"
  by (simp add: status_of_response_def)

lemma status_of_response_msg:
  "ok r \<Longrightarrow> json_loads E (body_text r) = Inr j \<Longrightarrow> subscript j ''msg'' = Inr m \<Longrightarrow>
   status_of_response E (Some r) = Inr (status_of_msg m)"
  by (simp add: status_of_response_def status_of_msg_def)

text \<open>
  Claim C1, as amended. \<^verbatim>\<open>get_status\<close> returns NotLaunched if and only if the identifier
  is the sentinel \<^verbatim>\<open>"-"\<close>. For the empty identifier it returns Error, and for these two
  identifiers it sends nothing. For any other identifier it sends exactly one request,
  the GET of the status endpoint, and returns Error when the HTTP stack raises an
  I/O-level exception, Error when the response has an error status (400 to 599), and
  otherwise the status of the \<^verbatim>\<open>msg\<close> field of the decoded body: Success for
  \<^verbatim>\<open>"successful"\<close>, Error for \<^verbatim>\<open>"failed"\<close>, OnGoing for any other value.
\<close>

theorem C1_get_status:
  "(fst (get_status E self s) = Inr NOT_LAUNCHED \<longleftrightarrow> play_uuid self = JStr ''-'')
   \<and> (play_uuid self = JStr [] \<longrightarrow> fst (get_status E self s) = Inr ERROR)
   \<and> (play_uuid self = JStr ''-'' \<or> play_uuid self = JStr [] \<longrightarrow>
        sent (snd (get_status E self s)) = sent s)
   \<and> (play_uuid self \<noteq> JStr ''-'' \<and> play_uuid self \<noteq> JStr [] \<longrightarrow>
        sent (snd (get_status E self s)) = sent s @ [status_request E self]
        \<and> (requests_request E (sent s) (status_request E self) = Inl ex \<and> io_level ex \<longrightarrow>
             fst (get_status E self s) = Inr ERROR)
        \<and> (requests_request E (sent s) (status_request E self) = Inr r \<and> \<not> ok r \<longrightarrow>
             fst (get_status E self s) = Inr ERROR)
        \<and> (requests_request E (sent s) (status_request E self) = Inr r \<and> ok r
             \<and> json_loads E (body_text r) = Inr j \<and> subscript j ''msg'' = Inr m \<longrightarrow>
             fst (get_status E self s) = Inr (status_of_msg m)))"
proof -
  consider (unset) "play_uuid self = JStr ''-''" | (empty) "play_uuid self = JStr []"
    | (other) "play_uuid self \<noteq> JStr ''-''" "play_uuid self \<noteq> JStr []"
    by blast
  then show ?thesis
  proof cases
    case unset
    then show ?thesis using get_status_unset [OF unset, of E s] by simp
  next
    case empty
    then show ?thesis using get_status_empty [OF empty, of E s] by simp
  next
    case other
    show ?thesis
    proof (cases "requests_request E (sent s) (status_request E self)")
      case (Inl e)
      have "fst (get_status E self s) \<noteq> Inr NOT_LAUNCHED"
        using get_status_raise(1) [OF other Inl] by (simp split: exn.splits)
      moreover have "io_level e \<Longrightarrow> fst (get_status E self s) = Inr ERROR"
        using get_status_raise(1) [OF other Inl] by (simp add: translate_io)
      ultimately show ?thesis
        using other Inl get_status_raise(2) [OF other Inl] by auto
    next
      case (Inr r')
      have "fst (get_status E self s) = status_of_response E (Some r')"
        by (rule get_status_response(1) [OF other Inr])
      then show ?thesis
        using other Inr get_status_response(2) [OF other Inr]
          status_of_response_launched [of E "Some r'"]
          status_of_response_error [of r' E] status_of_response_msg [of r' E j m]
        by auto
    qed
  qed
qed

lemma loads0_successful:
  "loads0 (body_msg ''successful'') = Inr (JObj [(''msg'', JStr ''successful'')])"
  by (simp add: loads0_def)

text \<open>
  Claim C1 as stated says that Error is returned only for the empty identifier. With the
  identifier \<^verbatim>\<open>uuid-1\<close> and a connection that is refused, Error is returned.
\<close>

theorem C1_counterexample:
  "play_uuid h_run \<noteq> JStr [] \<and> fst (get_status env_down h_run s0) = Inr ERROR"
proof -
  have "requests_request env_down (sent s0) (status_request env_down h_run)
          = Inl (IOError ''Connection refused'')"
    by (simp add: env_down_def env_of_def)
  then show ?thesis
    using get_status_raise(1) [of h_run env_down s0 "IOError ''Connection refused''"]
    by (simp add: h_run_def)
qed

theorem C1_witness:
  "fst (get_status env_down h_new s0) = Inr NOT_LAUNCHED
   \<and> sent (snd (get_status env_down h_new s0)) = []
   \<and> fst (get_status (env_of (Inr (resp_200 (body_msg ''successful'')))) h_run s0) = Inr SUCCESS
   \<and> sent (snd (get_status (env_of (Inr (resp_200 (body_msg ''successful'')))) h_run s0))
       = [get_request c0 ''api/v1/playbooks/uuid-1'']
   \<and> fst (get_status env_404 h_run s0) = Inr ERROR
   \<and> fst (get_status env_down h_run s0) = Inr ERROR
   \<and> fst (get_status env_down (h_new\<lparr>play_uuid := JStr []\<rparr>) s0) = Inr ERROR
   \<and> sent (snd (get_status env_down (h_new\<lparr>play_uuid := JStr []\<rparr>) s0)) = []"
proof -
  have a: "fst (get_status env_down h_new s0) = Inr NOT_LAUNCHED
           \<and> sent (snd (get_status env_down h_new s0)) = []"
    using C1_get_status [of env_down h_new s0 "IOError []" resp_404 JNull JNull]
    by (simp add: h_new_def PlayBookExecution_init_def s0_def)
  have b: "fst (get_status (env_of (Inr (resp_200 (body_msg ''successful'')))) h_run s0)
             = Inr SUCCESS
           \<and> sent (snd (get_status (env_of (Inr (resp_200 (body_msg ''successful'')))) h_run s0))
             = [get_request c0 ''api/v1/playbooks/uuid-1'']"
    using C1_get_status [of "env_of (Inr (resp_200 (body_msg ''successful'')))" h_run s0
        "IOError []" "resp_200 (body_msg ''successful'')"
        "JObj [(''msg'', JStr ''successful'')]" "JStr ''successful''"]
      loads0_successful
    by (simp add: h_run_def h_new_def PlayBookExecution_init_def s0_def env_of_def resp_200_def
        ok_def status_of_msg_def status_request_def PLAYBOOK_EXEC_URL_def)
  have c: "fst (get_status env_404 h_run s0) = Inr ERROR"
    using C1_get_status [of env_404 h_run s0 "IOError []" resp_404 JNull JNull]
    by (simp add: h_run_def env_404_def env_of_def resp_404_def ok_def)
  have d: "fst (get_status env_down h_run s0) = Inr ERROR"
    using C1_get_status [of env_down h_run s0 "IOError ''Connection refused''" resp_404 JNull JNull]
    by (simp add: h_run_def env_down_def env_of_def)
  have e: "fst (get_status env_down (h_new\<lparr>play_uuid := JStr []\<rparr>) s0) = Inr ERROR
           \<and> sent (snd (get_status env_down (h_new\<lparr>play_uuid := JStr []\<rparr>) s0)) = []"
    using C1_get_status [of env_down "h_new\<lparr>play_uuid := JStr []\<rparr>" s0 "IOError []" resp_404
        JNull JNull]
    by (simp add: s0_def)
  from a b c d e show ?thesis by simp
qed

text \<open>
  Claim C10, as amended. For an identifier that is neither the sentinel nor empty, when
  the response to the status GET has an error status (400 to 599), \<^verbatim>\<open>get_status\<close>
  returns Error whatever the body is and whatever \<^verbatim>\<open>json.loads\<close> would do with it.
\<close>

theorem C10_error_status:
  assumes "play_uuid self \<noteq> JStr ''-''" and "play_uuid self \<noteq> JStr []"
    and "requests_request E (sent s) (status_request E self) = Inr r"
    and "400 \<le> status_code r" and "status_code r < 600"
  shows "fst (get_status E self s) = Inr ERROR"
  using get_status_response(1) [OF assms(1,2,3)] assms(4,5)
  by (simp add: status_of_response_error ok_def)

theorem C10_witness:
  "fst (get_status (env_of (Inr (resp_500 (body_msg ''successful'')))) h_run s0) = Inr ERROR"
  using C10_error_status [of h_run "env_of (Inr (resp_500 (body_msg ''successful'')))" s0
      "resp_500 (body_msg ''successful'')"]
  by (simp add: h_run_def env_of_def resp_500_def)

text \<open>
  Claim C10 as stated covers every status other than \<^verbatim>\<open>requests.codes.ok\<close>. A response
  with status 300 is true, so its body is read: with \<^verbatim>\<open>"msg": "successful"\<close> the result
  is Success.
\<close>

theorem C10_counterexample:
  "status_code (resp_300 (body_msg ''successful'')) \<noteq> codes_ok
   \<and> requests_request (env_of (Inr (resp_300 (body_msg ''successful'')))) (sent s0)
        (status_request (env_of (Inr (resp_300 (body_msg ''successful'')))) h_run)
       = Inr (resp_300 (body_msg ''successful''))
   \<and> fst (get_status (env_of (Inr (resp_300 (body_msg ''successful'')))) h_run s0) = Inr SUCCESS"
proof -
  have "fst (get_status (env_of (Inr (resp_300 (body_msg ''successful'')))) h_run s0)
          = status_of_response (env_of (Inr (resp_300 (body_msg ''successful''))))
              (Some (resp_300 (body_msg ''successful'')))"
    by (rule get_status_response(1)) (simp_all add: h_run_def env_of_def)
  also have "\<dots> = Inr SUCCESS"
    using loads0_successful
    by (simp add: status_of_response_def env_of_def resp_300_def ok_def)
  finally show ?thesis
    by (simp add: env_of_def resp_300_def codes_ok_def)
qed

section \<open>Launching an execution\<close>

lemma http_post_response_eq:
  "requests_request E (sent s) (post_request c ep pl qs) = Inr r \<Longrightarrow>
   \<exists>s1. http_post E c ep pl qs s = (Inr r, s1) \<and> sent s1 = sent s @ [post_request c ep pl qs]"
  by (simp add: http_post_def wrapped_response)

lemma launch_response:
  assumes "requests_request E (sent s) (launch_request self) = Inr r"
  shows "ok r \<Longrightarrow> fst (launch E self s) =
           (case bindE (json_loads E (body_text r))
                   (\<lambda>j. bindE (subscript j ''data'') (\<lambda>d. subscript d ''play_uuid'')) of
              Inl ex \<Rightarrow> Inl ex | Inr uuid \<Rightarrow> Inr ())"
    and "ok r \<Longrightarrow> fst (snd (launch E self s)) =
           (case bindE (json_loads E (body_text r))
                   (\<lambda>j. bindE (subscript j ''data'') (\<lambda>d. subscript d ''play_uuid'')) of
              Inl ex \<Rightarrow> self | Inr uuid \<Rightarrow> self\<lparr>play_uuid := uuid\<rparr>)"
    and "\<not> ok r \<Longrightarrow> fst (launch E self s) = Inl (AnsibleRunnerServiceError (reason r))"
    and "\<not> ok r \<Longrightarrow> fst (snd (launch E self s)) = self"
proof -
  obtain s1 where eq: "http_post E (rest_client self) (PLAYBOOK_EXEC_URL @ ''/'' @ playbook self)
      (params self) (querystr_dict self) s = (Inr r, s1)"
    using http_post_response_eq assms unfolding launch_request_def by blast
  show "ok r \<Longrightarrow> fst (launch E self s) =
           (case bindE (json_loads E (body_text r))
                   (\<lambda>j. bindE (subscript j ''data'') (\<lambda>d. subscript d ''play_uuid'')) of
              Inl ex \<Rightarrow> Inl ex | Inr uuid \<Rightarrow> Inr ())"
    using eq by (simp add: launch_def split: sum.splits)
  show "ok r \<Longrightarrow> fst (snd (launch E self s)) =
           (case bindE (json_loads E (body_text r))
                   (\<lambda>j. bindE (subscript j ''data'') (\<lambda>d. subscript d ''play_uuid'')) of
              Inl ex \<Rightarrow> self | Inr uuid \<Rightarrow> self\<lparr>play_uuid := uuid\<rparr>)"
    using eq by (simp add: launch_def split: sum.splits)
  show "\<not> ok r \<Longrightarrow> fst (launch E self s) = Inl (AnsibleRunnerServiceError (reason r))"
    using eq by (simp add: launch_def)
  show "\<not> ok r \<Longrightarrow> fst (snd (launch E self s)) = self"
    using eq by (simp add: launch_def)
qed

text \<open>
  Claim C4, as amended. When the response to the POST of \<^verbatim>\<open>launch\<close> has an error status
  (400 to 599, where \<^verbatim>\<open>response.ok\<close> is false), \<^verbatim>\<open>launch\<close> raises the transport error
  whose message is the reason phrase of the response, and the handle, with its
  identifier, is left as it was.
\<close>

theorem C4_launch_error_status:
  assumes "requests_request E (sent s) (launch_request self) = Inr r"
    and "400 \<le> status_code r" and "status_code r < 600"
  shows "fst (launch E self s) = Inl (AnsibleRunnerServiceError (reason r))
         \<and> fst (snd (launch E self s)) = self"
  using launch_response(3,4) [OF assms(1)] assms(2,3) by (simp add: ok_def)

theorem C4_witness:
  "fst (launch env_404 h_new s0) = Inl (AnsibleRunnerServiceError ''NOT FOUND'')
   \<and> play_uuid (fst (snd (launch env_404 h_new s0))) = JStr ''-''"
  using C4_launch_error_status [of env_404 s0 h_new resp_404]
  by (simp add: env_404_def env_of_def resp_404_def h_new_def PlayBookExecution_init_def)

lemma loads0_uuid:
  "loads0 body_uuid = Inr (JObj [(''data'', JObj [(''play_uuid'', JStr ''uuid-2'')])])"
  by (simp add: loads0_def body_uuid_def body_msg_def json_object_def json_member_def quoted_def)

text \<open>
  Claim C4 as stated covers every response that is not a success. A response with
  status 300 has \<^verbatim>\<open>response.ok\<close> true: \<^verbatim>\<open>launch\<close> raises nothing and stores the
  identifier of the body.
\<close>

theorem C4_counterexample:
  "status_code (resp_300 body_uuid) \<noteq> codes_ok
   \<and> requests_request (env_of (Inr (resp_300 body_uuid))) (sent s0) (launch_request h_new)
       = Inr (resp_300 body_uuid)
   \<and> fst (launch (env_of (Inr (resp_300 body_uuid))) h_new s0) = Inr ()
   \<and> play_uuid h_new = JStr ''-''
   \<and> play_uuid (fst (snd (launch (env_of (Inr (resp_300 body_uuid))) h_new s0))) = JStr ''uuid-2''"
proof -
  have r: "requests_request (env_of (Inr (resp_300 body_uuid))) (sent s0) (launch_request h_new)
       = Inr (resp_300 body_uuid)"
    by (simp add: env_of_def)
  have o: "ok (resp_300 body_uuid)"
    by (simp add: ok_def resp_300_def)
  have l: "json_loads (env_of (Inr (resp_300 body_uuid))) (body_text (resp_300 body_uuid))
       = Inr (JObj [(''data'', JObj [(''play_uuid'', JStr ''uuid-2'')])])"
    using loads0_uuid by (simp add: env_of_def resp_300_def)
  show ?thesis
    using launch_response(1,2) [OF r o] l r
    by (simp add: resp_300_def codes_ok_def h_new_def PlayBookExecution_init_def)
qed

section \<open>The exceptions that reach the caller\<close>

lemma only_transport_translate: "io_level ex \<Longrightarrow> only_transport_error (Inl (translate_exn ex))"
  by (cases ex) simp_all

lemma wrapped_only_transport:
  assumes "io_only E"
  shows "only_transport_error (fst (handle_requests_exceptions (exchange E rq a b) s))"
proof (cases "requests_request E (sent s) rq")
  case (Inl ex)
  with assms have "io_level ex" unfolding io_only_def by blast
  with Inl show ?thesis by (simp add: wrapped_raise only_transport_translate)
next
  case (Inr r)
  then show ?thesis by (simp add: wrapped_response)
qed

text \<open>
  Claim C3, as amended. When the HTTP stack raises I/O-level exceptions only, the
  transport error is the only exception that \<^verbatim>\<open>http_get\<close>, \<^verbatim>\<open>http_post\<close>,
  \<^verbatim>\<open>http_delete\<close> and \<^verbatim>\<open>is_operative\<close> raise, for every input; \<^verbatim>\<open>http_put\<close> raises
  \<^verbatim>\<open>NotImplementedError\<close> for every input.
\<close>

theorem C3_transport_operations:
  assumes "io_only E"
  shows "only_transport_error (fst (http_get E c ep s))
         \<and> only_transport_error (fst (http_post E c ep pl qs s))
         \<and> only_transport_error (fst (http_delete E c ep s))
         \<and> only_transport_error (fst (is_operative E c s))
         \<and> fst (http_put E c ep pl s) = Inl (NotImplementedError ''TODO'')"
proof -
  have g: "only_transport_error (fst (http_get E c ep' s))" for ep'
    unfolding http_get_def by (rule wrapped_only_transport [OF assms])
  have "only_transport_error (fst (is_operative E c s))"
  proof (cases "http_get E c API_URL s")
    case (Pair res s1)
    with g [of API_URL] show ?thesis
      by (cases res; cases "projl res")
         (simp_all add: is_operative_def handle_requests_exceptions_def)
  qed
  with g [of ep] wrapped_only_transport [OF assms] show ?thesis
    by (simp add: http_post_def http_delete_def http_put_def)
qed

theorem C3_witness:
  "io_only env_down
   \<and> only_transport_error (fst (http_get env_down c0 ''api'' s0))
   \<and> only_transport_error (fst (is_operative env_down c0 s0))
   \<and> fst (http_put env_down c0 ''api'' JNull s0) = Inl (NotImplementedError ''TODO'')"
proof -
  have "io_only env_down"
    by (simp add: io_only_def env_down_def env_of_def)
  then show ?thesis
    using C3_transport_operations [of env_down c0 "''api''" s0 JNull JNull] by simp
qed

text \<open>
  Claim C3 as stated covers every operation of the module. \<^verbatim>\<open>http_put\<close> is one, and the
  exception it raises is not the transport error.
\<close>

theorem C3_counterexample:
  "fst (http_put env_down c0 ''api'' JNull s0) = Inl (NotImplementedError ''TODO'')
   \<and> \<not> only_transport_error (fst (http_put env_down c0 ''api'' JNull s0))"
  by (simp add: http_put_def)

section \<open>The result of an execution\<close>

text \<open>
  With an identifier that is false, which for a string means the empty one,
  \<^verbatim>\<open>get_result\<close> returns the empty dict and sends nothing.
\<close>

lemma get_result_no_identifier:
  "\<not> truthy (play_uuid self) \<Longrightarrow> get_result E self event_filter s = (Inr (JObj []), s)"
  by (simp add: get_result_def)

lemma get_result_response:
  assumes "truthy (play_uuid self)"
    and "requests_request E (sent s) (events_request E self) = Inr r"
  shows "fst (get_result E self event_filter s) =
           (if ok r then result_events E self event_filter r else Inr (JObj []))"
    and "sent (snd (get_result E self event_filter s)) = sent s @ [events_request E self]"
proof -
  obtain s1 where "http_get E (rest_client self) (PLAYBOOK_EVENTS E (play_uuid self)) s
      = (Inr r, s1)"
    and "sent s1 = sent s @ [events_request E self]"
    using http_get_response_eq [of E s "rest_client self" _ r] assms(2)
    unfolding events_request_def by blast
  with assms(1) show "fst (get_result E self event_filter s) =
           (if ok r then result_events E self event_filter r else Inr (JObj []))"
    and "sent (snd (get_result E self event_filter s)) = sent s @ [events_request E self]"
    by (simp_all add: get_result_def)
qed

lemma get_result_raise:
  assumes "truthy (play_uuid self)"
    and "requests_request E (sent s) (events_request E self) = Inl ex"
  shows "fst (get_result E self event_filter s) =
           (case translate_exn ex of AnsibleRunnerServiceError m \<Rightarrow> Inr (JObj []) | e \<Rightarrow> Inl e)"
    and "sent (snd (get_result E self event_filter s)) = sent s @ [events_request E self]"
proof -
  have eq: "http_get E (rest_client self) (PLAYBOOK_EVENTS E (play_uuid self)) s
      = (Inl (translate_exn ex), s\<lparr>sent := sent s @ [events_request E self]\<rparr>)"
    using http_get_raise [of E s "rest_client self" _ ex] assms(2)
    unfolding events_request_def by simp
  with assms(1) show "fst (get_result E self event_filter s) =
           (case translate_exn ex of AnsibleRunnerServiceError m \<Rightarrow> Inr (JObj []) | e \<Rightarrow> Inl e)"
    and "sent (snd (get_result E self event_filter s)) = sent s @ [events_request E self]"
    by (simp_all add: get_result_def split: exn.splits)
qed


lemma loads0_events:
  "loads0 body_events = Inr (JObj [(''data'', JObj [(''events'', JObj events0)])])"
  by (simp add: loads0_def body_events_def body_uuid_def body_msg_def json_object_def
      json_member_def quoted_def)


text \<open>
  Claim C2 at the handle the constructor returns. Its identifier is the sentinel
  \<^verbatim>\<open>"-"\<close>, a string that is true: \<^verbatim>\<open>get_result\<close> does not return at
  \<^verbatim>\<open>if not self.play_uuid\<close>, it sends the GET of \<^verbatim>\<open>api/v1/jobs/-/events\<close> and returns
  the events of the response.
\<close>

theorem C2_unset_identifier_queries:
  "play_uuid (PlayBookExecution_init c0 ''site.yml'' [] JNull JNull) = JStr ''-''
   \<and> fst (get_result (env_of (Inr (resp_200 body_events)))
           (PlayBookExecution_init c0 ''site.yml'' [] JNull JNull) [] s0) = Inr (JObj events0)
   \<and> sent (snd (get_result (env_of (Inr (resp_200 body_events)))
           (PlayBookExecution_init c0 ''site.yml'' [] JNull JNull) [] s0))
       = [get_request c0 ''api/v1/jobs/-/events'']"
proof -
  let ?E = "env_of (Inr (resp_200 body_events))"
  let ?h = "PlayBookExecution_init c0 ''site.yml'' [] JNull JNull"
  have t: "truthy (play_uuid ?h)"
    by (simp add: PlayBookExecution_init_def)
  have r: "requests_request ?E (sent s0) (events_request ?E ?h) = Inr (resp_200 body_events)"
    by (simp add: env_of_def)
  have e: "result_events ?E ?h [] (resp_200 body_events) = Inr (JObj events0)"
    using loads0_events
    by (simp add: result_events_def events_of_def filter_by_task_def filter_by_event_def
        env_of_def resp_200_def PlayBookExecution_init_def)
  show ?thesis
    using get_result_response [OF t r, of "[]"] e
    by (simp add: ok_def resp_200_def PlayBookExecution_init_def events_request_def
        PLAYBOOK_EVENTS_def s0_def)
qed

section \<open>The two filters of the result\<close>

lemma comprehension_values:
  "\<forall>(k, d) \<in> set xs. \<not> isl (cond d) \<Longrightarrow>
   comprehension cond xs = Inr (filter (\<lambda>(k, d). cond d = Inr True) xs)"
proof (induction xs)
  case Nil
  then show ?case by simp
next
  case (Cons x xs)
  obtain k d where x: "x = (k, d)" by (cases x)
  with Cons.prems obtain b where b: "cond d = Inr b"
    by (cases "cond d") auto
  from Cons have "comprehension cond xs = Inr (filter (\<lambda>(k, d). cond d = Inr True) xs)"
    by simp
  with x b show ?case by simp
qed




lemma event_cond_matches: "event_cond E pattern d = Inr b \<Longrightarrow> b = event_matches E pattern d"
  by (cases d) (auto simp: event_cond_def split: option.splits)

lemma bar_special: "re_special CHR ''|''"
  by (simp add: re_special_def)

lemma split_bar_literal: "literal n \<Longrightarrow> split_bar n = [n]"
proof (induction n)
  case Nil
  then show ?case by simp
next
  case (Cons c cs)
  then have "c \<noteq> CHR ''|''" and "literal cs"
    using bar_special by (auto simp: literal_def)
  with Cons.IH show ?case by simp
qed

lemma split_bar_append:
  "literal n \<Longrightarrow> split_bar (n @ CHR ''|'' # rest) = n # split_bar rest"
proof (induction n)
  case Nil
  then show ?case by simp
next
  case (Cons c cs)
  then have "c \<noteq> CHR ''|''" and "literal cs"
    using bar_special by (auto simp: literal_def)
  with Cons.IH show ?case by simp
qed

lemma split_bar_join:
  "list_all literal names \<Longrightarrow> names \<noteq> [] \<Longrightarrow> split_bar (join ''|'' names) = names"
proof (induction "''|''" names rule: join.induct)
  case 1
  then show ?case by simp
next
  case (2 x)
  then show ?case by (simp add: split_bar_literal)
next
  case (3 x y ys)
  then show ?case by (simp add: split_bar_append)
qed

lemma literal_alternation_join:
  "list_all literal names \<Longrightarrow> literal_alternation (join ''|'' names)"
proof (induction "''|''" names rule: join.induct)
  case 1
  then show ?case by (simp add: literal_alternation_def)
next
  case (2 x)
  then show ?case by (simp add: literal_alternation_def literal_def list_all_iff)
next
  case (3 x y ys)
  then show ?case by (auto simp: literal_alternation_def literal_def list_all_iff)
qed

lemma literal_alternation_literal: "literal p \<Longrightarrow> literal_alternation p"
  by (simp add: literal_alternation_def literal_def list_all_iff)


lemma re_agrees_names:
  "re_agrees E \<Longrightarrow> list_all literal names \<Longrightarrow> names \<noteq> [] \<Longrightarrow>
   re_match E (join ''|'' names) (JStr e) = Inr (list_ex (\<lambda>n. prefix n e) names)"
  by (simp add: re_agrees_def literal_alternation_join literal_match_def split_bar_join)


lemma event_cond_literal:
  assumes "re_agrees E" and "list_all literal names" and "names \<noteq> []"
    and "has_event_string d"
  shows "event_cond E (join ''|'' names) d = Inr (event_starts_with names d)"
proof (cases d)
  case (JObj kvs)
  with assms(4) obtain e where "map_of kvs ''event'' = Some (JStr e)"
    by (auto split: option.splits json.splits)
  with JObj show ?thesis
    using re_agrees_names [OF assms(1,2,3)] by (simp add: event_cond_def)
qed (use assms(4) in simp_all)

lemma filter_cong_items:
  "(\<And>k d. (k, d) \<in> set xs \<Longrightarrow> P d = Q d) \<Longrightarrow>
   filter (\<lambda>(k, d). P d) xs = filter (\<lambda>(k, d). Q d) xs"
  by (rule filter_cong) auto


lemma filter_by_event_values:
  assumes "event_filter \<noteq> []"
    and "\<forall>(k, d) \<in> set its. \<not> isl (event_cond E (join ''|'' event_filter) d)"
  shows "filter_by_event E event_filter (JObj its) =
           Inr (JObj (filter (\<lambda>(k, d). event_matches E (join ''|'' event_filter) d) its))"
proof -
  have "filter (\<lambda>(k, d). event_cond E (join ''|'' event_filter) d = Inr True) its
          = filter (\<lambda>(k, d). event_matches E (join ''|'' event_filter) d) its"
  proof (rule filter_cong_items)
    fix k d
    assume "(k, d) \<in> set its"
    with assms(2) obtain b where "event_cond E (join ''|'' event_filter) d = Inr b"
      by (cases "event_cond E (join ''|'' event_filter) d") auto
    then show "(event_cond E (join ''|'' event_filter) d = Inr True)
                 = event_matches E (join ''|'' event_filter) d"
      using event_cond_matches by fastforce
  qed
  then show ?thesis
    using assms(1) comprehension_values [OF assms(2)] by (simp add: filter_by_event_def)
qed


lemma filter_by_event_literal:
  assumes "event_filter \<noteq> []" and "re_agrees E"
    and "list_all literal event_filter" and "\<forall>(k, d) \<in> set its. has_event_string d"
  shows "filter_by_event E event_filter (JObj its) =
           Inr (JObj (filter (\<lambda>(k, d). event_starts_with event_filter d) its))"
proof -
  have c: "event_cond E (join ''|'' event_filter) d = Inr (event_starts_with event_filter d)"
    if "(k, d) \<in> set its" for k d
    using event_cond_literal [OF assms(2,3,1)] assms(4) that by blast
  then have "\<forall>(k, d) \<in> set its. \<not> isl (event_cond E (join ''|'' event_filter) d)"
    by auto
  moreover have "filter (\<lambda>(k, d). event_cond E (join ''|'' event_filter) d = Inr True) its
          = filter (\<lambda>(k, d). event_starts_with event_filter d) its"
    by (rule filter_cong_items) (simp add: c)
  ultimately show ?thesis
    using assms(1) comprehension_values [of its "event_cond E (join ''|'' event_filter)"]
    by (simp add: filter_by_event_def)
qed




text \<open>
  Claim C5, as amended. For a handle with an identifier, a response to the GET of the
  events that is true, the dict that the task filter leaves, and a list of names that is
  not empty: when every event of that dict has an \<^verbatim>\<open>event\<close> field and matching it raises
  nothing, \<^verbatim>\<open>get_result\<close> returns exactly the events of that dict whose \<^verbatim>\<open>event\<close> field
  is matched with \<^verbatim>\<open>re.match\<close> by the names joined with \<open>|\<close>. For names without
  metacharacters and events whose \<^verbatim>\<open>event\<close> fields are strings, these are exactly the
  events whose \<^verbatim>\<open>event\<close> starts with one of the names.
\<close>

theorem C5_event_filter:
  assumes "truthy (play_uuid self)"
    and "requests_request E (sent s) (events_request E self) = Inr r" and "ok r"
    and "events_of E r = Inr events"
    and "filter_by_task E self events = Inr (JObj its)"
    and "event_filter \<noteq> []"
  shows "((\<forall>(k, d) \<in> set its. \<not> isl (event_cond E (join ''|'' event_filter) d)) \<longrightarrow>
            fst (get_result E self event_filter s)
              = Inr (JObj (filter (\<lambda>(k, d). event_matches E (join ''|'' event_filter) d) its)))
         \<and> (re_agrees E \<and> list_all literal event_filter
              \<and> (\<forall>(k, d) \<in> set its. has_event_string d) \<longrightarrow>
            fst (get_result E self event_filter s)
              = Inr (JObj (filter (\<lambda>(k, d). event_starts_with event_filter d) its)))"
proof -
  have res: "fst (get_result E self event_filter s) = filter_by_event E event_filter (JObj its)"
    using get_result_response(1) [OF assms(1,2)] assms(3,4,5) by (simp add: result_events_def)
  show ?thesis
    using res filter_by_event_values [OF assms(6)] filter_by_event_literal [OF assms(6)]
    by simp
qed

lemma re_agrees_env_of: "re_agrees (env_of outcome)"
  by (simp add: re_agrees_def env_of_def re0_def)

lemma events_of_body_events:
  "events_of (env_of outcome) (resp_200 body_events) = Inr (JObj events0)"
  using loads0_events by (simp add: events_of_def env_of_def resp_200_def)

lemma re0_literal:
  "literal p \<Longrightarrow> re0 p (JStr t) = Inr (prefix p t)"
  by (simp add: re0_def literal_alternation_literal literal_match_def split_bar_literal)


lemma literal_runner_on: "literal ''runner_on''"
  by (simp add: literal_def re_special_def)

lemma literal_playbook: "literal ''playbook''"
  by (simp add: literal_def re_special_def)



lemma event_conds_events0:
  "\<forall>(k, d) \<in> set events0. \<not> isl (event_cond (env_of outcome) (join ''|'' [''playbook'']) d)"
  by (simp add: events0_def event_cond_def env_of_def re0_literal literal_playbook)



theorem C5_witness:
  "fst (get_result (env_of (Inr (resp_200 body_events))) h_run [''runner_on'', ''playbook''] s0)
     = Inr (JObj [(''1-a'', JObj [(''event'', JStr ''playbook_on_start'')]),
                  (''2-b'', JObj [(''event'', JStr ''runner_on_ok''),
                                  (''task'', JStr ''Gathering Facts'')]),
                  (''3-c'', JObj [(''event'', JStr ''runner_on_failed''),
                                  (''task'', JStr ''Install'')])])
   \<and> fst (get_result (env_of (Inr (resp_200 body_events))) h_run [''playbook''] s0)
     = Inr (JObj [(''1-a'', JObj [(''event'', JStr ''playbook_on_start'')])])
   \<and> fst (get_result (env_of (Inr (resp_200 body_events))) h_run [''playbook''] s0)
     = Inr (JObj (filter (\<lambda>(k, d). event_matches (env_of (Inr (resp_200 body_events)))
                                      (join ''|'' [''playbook'']) d) events0))"
proof -
  let ?E = "env_of (Inr (resp_200 body_events))"
  have t: "truthy (play_uuid h_run)"
    by (simp add: h_run_def)
  have r: "requests_request ?E (sent s0) (events_request ?E h_run) = Inr (resp_200 body_events)"
    by (simp add: env_of_def)
  have o: "ok (resp_200 body_events)"
    by (simp add: ok_def resp_200_def)
  have f: "filter_by_task ?E h_run (JObj events0) = Inr (JObj events0)"
    by (simp add: filter_by_task_def h_run_def h_new_def PlayBookExecution_init_def)
  have s: "\<forall>(k, d) \<in> set events0. has_event_string d"
    by (simp add: events0_def)
  have a: "fst (get_result ?E h_run [''runner_on'', ''playbook''] s0)
          = Inr (JObj (filter (\<lambda>(k, d). event_starts_with [''runner_on'', ''playbook''] d) events0))"
    using C5_event_filter [OF t r o events_of_body_events f, of "[''runner_on'', ''playbook'']"]
      re_agrees_env_of s literal_runner_on literal_playbook
    by simp
  have b: "fst (get_result ?E h_run [''playbook''] s0)
          = Inr (JObj (filter (\<lambda>(k, d). event_starts_with [''playbook''] d) events0))"
    using C5_event_filter [OF t r o events_of_body_events f, of "[''playbook'']"]
      re_agrees_env_of s literal_playbook
    by simp
  have c: "fst (get_result ?E h_run [''playbook''] s0)
          = Inr (JObj (filter (\<lambda>(k, d). event_matches ?E (join ''|'' [''playbook'']) d) events0))"
    using C5_event_filter [OF t r o events_of_body_events f, of "[''playbook'']"]
      event_conds_events0
    by blast
  from a b c show ?thesis
    by (simp add: events0_def)
qed

lemma loads0_no_event:
  "loads0 body_no_event = Inr (JObj [(''data'', JObj [(''events'', JObj events_no_event)])])"
  by (simp add: loads0_def body_no_event_def body_events_def body_uuid_def body_msg_def
      json_object_def json_member_def quoted_def)

text \<open>
  Claim C5 as stated covers every dict of events. The second comprehension reads
  \<^verbatim>\<open>data['event']\<close> without the test that the first one makes for \<^verbatim>\<open>task\<close>: with an
  event that has no \<^verbatim>\<open>event\<close> field, \<^verbatim>\<open>get_result\<close> raises \<^verbatim>\<open>KeyError\<close> and returns no
  mapping, where the claim has that event left out and the first one returned.
\<close>

theorem C5_counterexample:
  "truthy (play_uuid h_run)
   \<and> events_of (env_of (Inr (resp_200 body_no_event))) (resp_200 body_no_event)
       = Inr (JObj events_no_event)
   \<and> filter_by_task (env_of (Inr (resp_200 body_no_event))) h_run (JObj events_no_event)
       = Inr (JObj events_no_event)
   \<and> filter (\<lambda>(k, d). event_starts_with [''runner_on''] d) events_no_event
       = [(''1-a'', JObj [(''event'', JStr ''runner_on_ok'')])]
   \<and> fst (get_result (env_of (Inr (resp_200 body_no_event))) h_run [''runner_on''] s0)
       = Inl (KeyError ''event'')"
proof -
  let ?E = "env_of (Inr (resp_200 body_no_event))"
  have t: "truthy (play_uuid h_run)"
    by (simp add: h_run_def)
  have r: "requests_request ?E (sent s0) (events_request ?E h_run) = Inr (resp_200 body_no_event)"
    by (simp add: env_of_def)
  have o: "ok (resp_200 body_no_event)"
    by (simp add: ok_def resp_200_def)
  have e: "events_of ?E (resp_200 body_no_event) = Inr (JObj events_no_event)"
    using loads0_no_event by (simp add: events_of_def env_of_def resp_200_def)
  have f: "filter_by_task ?E h_run (JObj events_no_event) = Inr (JObj events_no_event)"
    by (simp add: filter_by_task_def h_run_def h_new_def PlayBookExecution_init_def)
  have g: "filter_by_event ?E [''runner_on''] (JObj events_no_event) = Inl (KeyError ''event'')"
    by (simp add: filter_by_event_def events_no_event_def event_cond_def env_of_def
        re0_literal literal_runner_on)
  have "fst (get_result ?E h_run [''runner_on''] s0) = Inl (KeyError ''event'')"
    using get_result_response(1) [OF t r, of "[''runner_on'']"] o e f g
    by (simp add: result_events_def)
  moreover have "filter (\<lambda>(k, d). event_starts_with [''runner_on''] d) events_no_event
       = [(''1-a'', JObj [(''event'', JStr ''runner_on_ok'')])]"
    by (simp add: events_no_event_def)
  ultimately show ?thesis
    using t e f by simp
qed

end
